theory Spec2Isabelle
  imports Complex_Main
begin

section \<open>Blackboard state (agents/state.py)\<close>

text \<open>
  Timestamps are the values of \<open>datetime.now()\<close>; every call of the clock is a
  parameter of the function that makes it. Optional floats are rationals.
\<close>

type_synonym datetime = nat
type_synonym score = rat

record AgentNote =
  agent_name :: string
  note_text :: string
  target_agent :: "string option"
  note_timestamp :: datetime
  priority :: string

record ProtocolDraft =
  content :: string
  version :: int
  iteration :: int
  created_by :: string
  timestamp :: datetime
  draft_safety_score :: "score option"
  draft_empathy_score :: "score option"
  draft_clinical_score :: "score option"
  feedback :: "string list"

record ProtocolState =
  user_intent :: string
  session_id :: string
  status :: string
  current_draft :: "string option"
  draft_history :: "ProtocolDraft list"
  current_version :: int
  iteration_count :: int
  max_iterations :: int
  agent_notes :: "AgentNote list"
  active_agent :: "string option"
  agent_decisions :: "string \<rightharpoonup> string"
  safety_checks :: "string \<rightharpoonup> bool"
  safety_score :: "score option"
  empathy_score :: "score option"
  clinical_score :: "score option"
  halted :: bool
  human_approved :: bool
  human_edits :: "string option"
  start_time :: datetime
  last_update :: datetime
  metadata :: "string \<rightharpoonup> string"

definition create_initial_state :: "string \<Rightarrow> string \<Rightarrow> int \<Rightarrow> datetime \<Rightarrow> ProtocolState" where
  "create_initial_state intent sid max_iter now =
     \<lparr> user_intent = intent,
       session_id = sid,
       status = ''initializing'',
       current_draft = None,
       draft_history = [],
       current_version = 0,
       iteration_count = 0,
       max_iterations = max_iter,
       agent_notes = [],
       active_agent = None,
       agent_decisions = Map.empty,
       safety_checks = Map.empty,
       safety_score = None,
       empathy_score = None,
       clinical_score = None,
       halted = False,
       human_approved = False,
       human_edits = None,
       start_time = now,
       last_update = now,
       metadata = Map.empty \<rparr>"

text \<open>
  \<open>add_agent_note\<close> reads the clock twice: \<open>t1\<close> stamps the note, \<open>t2\<close> the state.
\<close>

definition add_agent_note ::
  "ProtocolState \<Rightarrow> string \<Rightarrow> string \<Rightarrow> string option \<Rightarrow> string \<Rightarrow> datetime \<Rightarrow> datetime
     \<Rightarrow> ProtocolState" where
  "add_agent_note state name txt target prio t1 t2 =
     (let new_note = \<lparr> agent_name = name, note_text = txt, target_agent = target,
                         note_timestamp = t1, priority = prio \<rparr>
      in state\<lparr> agent_notes := agent_notes state @ [new_note], last_update := t2 \<rparr>)"

definition add_draft_version ::
  "ProtocolState \<Rightarrow> string \<Rightarrow> string \<Rightarrow> score option \<Rightarrow> score option \<Rightarrow> score option
     \<Rightarrow> datetime \<Rightarrow> datetime \<Rightarrow> ProtocolState" where
  "add_draft_version state txt author ss es cs t1 t2 =
     (let new_draft = \<lparr> content = txt,
                          version = current_version state + 1,
                          iteration = iteration_count state,
                          created_by = author,
                          timestamp = t1,
                          draft_safety_score = ss,
                          draft_empathy_score = es,
                          draft_clinical_score = cs,
                          feedback = [] \<rparr>
      in state\<lparr> draft_history := draft_history state @ [new_draft],
                 current_version := version new_draft,
                 current_draft := Some txt,
                 last_update := t2 \<rparr>)"

section \<open>Python string helpers\<close>

text \<open>\<open>sub in s\<close> on strings: \<open>sub\<close> occurs in \<open>s\<close> as a contiguous block.\<close>

fun starts_with :: "string \<Rightarrow> string \<Rightarrow> bool" where
  "starts_with [] s = True"
| "starts_with (c # cs) [] = False"
| "starts_with (c # cs) (d # ds) = (c = d \<and> starts_with cs ds)"

fun py_in :: "string \<Rightarrow> string \<Rightarrow> bool" where
  "py_in sub [] = (sub = [])"
| "py_in sub (d # ds) = (starts_with sub (d # ds) \<or> py_in sub ds)"

text \<open>Truthiness of an \<open>Optional[str]\<close>: \<open>None\<close> and the empty string are falsy.\<close>

definition truthy :: "string option \<Rightarrow> bool" where
  "truthy v = (case v of None \<Rightarrow> False | Some s \<Rightarrow> s \<noteq> [])"

section \<open>Router (agents/workflow.py)\<close>

text \<open>The six string literals \<open>should_continue\<close> can return.\<close>

datatype route = Draft | Safety_review | Clinical_critique | Supervisor | Halt | End

text \<open>
  The router receives the state dictionary by reference and assigns
  \<open>state["halted"] = False\<close> on one path, so the model returns the state as the call
  leaves it, next to the decision.
\<close>

definition should_continue :: "ProtocolState \<Rightarrow> route \<times> ProtocolState" where
  "should_continue state =
     (if halted state then (Halt, state)
      else if human_approved state then (End, state\<lparr> halted := False \<rparr>)
      else if active_agent state = Some ''Drafter'' then (Safety_review, state)
      else if active_agent state = Some ''SafetyGuardian'' then (Clinical_critique, state)
      else if active_agent state = Some ''ClinicalCritic'' then (Supervisor, state)
      else if active_agent state = Some ''Supervisor'' then
        (if py_in ''needs_revision'' (status state) then (Draft, state)
         else if py_in ''ready_for_review'' (status state)
                 \<or> py_in ''awaiting_review'' (status state) then (Halt, state)
         else (End, state))
      else if \<not> truthy (current_draft state) then (Draft, state)
      else (Supervisor, state))"

text \<open>
  The routing table as the specification words it, rule by rule, first match first.
  The step identifiers \<open>draft\<close>, \<open>safety_review\<close>, \<open>clinical_critique\<close> and
  \<open>supervise\<close> are the code's agent names \<open>Drafter\<close>, \<open>SafetyGuardian\<close>,
  \<open>ClinicalCritic\<close> and \<open>Supervisor\<close>; \<open>terminate\<close> is \<open>End\<close>. Rule 7 reads
  "current_draft absent".
\<close>

definition route_table :: "ProtocolState \<Rightarrow> route" where
  "route_table state =
     (if halted state then Halt
      else if human_approved state then End
      else if active_agent state = Some ''Drafter'' then Safety_review
      else if active_agent state = Some ''SafetyGuardian'' then Clinical_critique
      else if active_agent state = Some ''ClinicalCritic'' then Supervisor
      else if active_agent state = Some ''Supervisor'' then
        (if py_in ''needs_revision'' (status state) then Draft
         else if py_in ''ready_for_review'' (status state)
                 \<or> py_in ''awaiting_review'' (status state) then Halt
         else End)
      else if current_draft state = None then Draft
      else Supervisor)"

section \<open>Exceptions\<close>

text \<open>
  \<open>Str e\<close> is \<open>str(e)\<close> of a caught exception, kept as the exception it renders.
\<close>

datatype exn =
    HTTPException nat detail
  | AttributeError string
  | AgentError string
  | CheckpointError string
and detail = Literal string | Str exn

section \<open>Step functions (agents/workflow.py)\<close>

text \<open>
  The four agents live in \<open>agents/agents.py\<close> and are parameters here. An agent call
  is handed the state dictionary itself, so it may write to it before it returns or
  raises: the model of a call gives the returned dictionary or the exception, and
  next to it the state as the call leaves it. A key the returned dictionary may lack
  is an option (\<open>None\<close>: the key is missing), around the value's own type.
\<close>

record draft_result =
  r_current_draft :: "string option option"
  r_active_agent :: "string option option"
  r_status :: "string option"

record safety_result =
  sr_safety_checks :: "(string \<rightharpoonup> bool) option"
  sr_safety_score :: "score option option"
  sr_status :: "string option"

record critique_result =
  cr_empathy_score :: "score option option"
  cr_clinical_score :: "score option option"
  cr_status :: "string option"

record supervisor_result =
  sup_status :: "string option"
  sup_halted :: "bool option"

text \<open>
  A step either returns the state it updated in place or raises; \<open>Raises e s\<close> keeps
  the state dictionary as the raising call left it.
\<close>

datatype outcome = Returns ProtocolState | Raises exn ProtocolState

definition draft_node ::
  "(ProtocolState \<Rightarrow> (exn + draft_result) \<times> ProtocolState) \<Rightarrow> datetime \<Rightarrow> datetime
     \<Rightarrow> ProtocolState \<Rightarrow> outcome" where
  "draft_node drafter t1 t2 state0 =
     (let state = snd (drafter state0) in
      case fst (drafter state0) of
        Inl e \<Rightarrow> Raises e state
      | Inr result \<Rightarrow>
          (let s1 = state\<lparr> current_draft :=
                      (case r_current_draft result of None \<Rightarrow> current_draft state | Some v \<Rightarrow> v) \<rparr>;
               s2 = s1\<lparr> active_agent :=
                      (case r_active_agent result of None \<Rightarrow> Some ''Drafter'' | Some v \<Rightarrow> v) \<rparr>;
               s3 = s2\<lparr> status :=
                      (case r_status result of None \<Rightarrow> ''drafting'' | Some v \<Rightarrow> v) \<rparr>;
               s4 = s3\<lparr> iteration_count := iteration_count s3 + 1 \<rparr>
           in (case current_draft s4 of
                 None \<Rightarrow> Returns s4
               | Some d \<Rightarrow>
                   if d = [] then Returns s4
                   else Returns (add_draft_version s4 d ''Drafter'' None None None t1 t2))))"

definition safety_review_node ::
  "(ProtocolState \<Rightarrow> (exn + safety_result) \<times> ProtocolState) \<Rightarrow> ProtocolState \<Rightarrow> outcome" where
  "safety_review_node safety_guardian state0 =
     (let state = snd (safety_guardian state0) in
      case fst (safety_guardian state0) of
        Inl e \<Rightarrow> Raises e state
      | Inr result \<Rightarrow>
          (let s1 = (case sr_safety_checks result of
                       None \<Rightarrow> state
                     | Some checks \<Rightarrow> state\<lparr> safety_checks := safety_checks state ++ checks \<rparr>);
               s2 = (case sr_safety_score result of
                       None \<Rightarrow> s1
                     | Some v \<Rightarrow> s1\<lparr> safety_score := v \<rparr>)
           in Returns (s2\<lparr> active_agent := Some ''SafetyGuardian'',
                           status := (case sr_status result of None \<Rightarrow> ''reviewing'' | Some v \<Rightarrow> v) \<rparr>)))"

definition clinical_critique_node ::
  "(ProtocolState \<Rightarrow> (exn + critique_result) \<times> ProtocolState) \<Rightarrow> ProtocolState \<Rightarrow> outcome" where
  "clinical_critique_node clinical_critic state0 =
     (let state = snd (clinical_critic state0) in
      case fst (clinical_critic state0) of
        Inl e \<Rightarrow> Raises e state
      | Inr result \<Rightarrow>
          (let s1 = (case cr_empathy_score result of
                       None \<Rightarrow> state
                     | Some v \<Rightarrow> state\<lparr> empathy_score := v \<rparr>);
               s2 = (case cr_clinical_score result of
                       None \<Rightarrow> s1
                     | Some v \<Rightarrow> s1\<lparr> clinical_score := v \<rparr>)
           in Returns (s2\<lparr> active_agent := Some ''ClinicalCritic'',
                           status := (case cr_status result of None \<Rightarrow> ''critiquing'' | Some v \<Rightarrow> v) \<rparr>)))"

definition supervisor_node ::
  "(ProtocolState \<Rightarrow> (exn + supervisor_result) \<times> ProtocolState) \<Rightarrow> ProtocolState \<Rightarrow> outcome" where
  "supervisor_node supervisor state0 =
     (let state = snd (supervisor state0) in
      case fst (supervisor state0) of
        Inl e \<Rightarrow> Raises e state
      | Inr result \<Rightarrow>
          (let s1 = state\<lparr> active_agent := Some ''Supervisor'',
                            status := (case sup_status result of None \<Rightarrow> ''deciding'' | Some v \<Rightarrow> v) \<rparr>
           in if sup_halted result = Some True
              then Returns (s1\<lparr> halted := True, status := ''awaiting_approval'' \<rparr>)
              else Returns s1))"

section \<open>The compiled graph (create_workflow)\<close>

datatype node = Draft_node | Safety_review_node | Clinical_critique_node | Supervisor_node

text \<open>
  The dictionaries given to \<open>add_conditional_edges\<close>: for a node and a decision of the
  router, \<open>Some (Some n)\<close> is the next node, \<open>Some None\<close> is \<open>END\<close>, and \<open>None\<close> says
  the dictionary of that node has no such key.
\<close>

fun edges :: "node \<Rightarrow> route \<Rightarrow> node option option" where
  "edges Draft_node Draft = Some (Some Draft_node)"
| "edges Draft_node Safety_review = Some (Some Safety_review_node)"
| "edges Draft_node Clinical_critique = Some (Some Clinical_critique_node)"
| "edges Draft_node Supervisor = Some (Some Supervisor_node)"
| "edges Draft_node Halt = Some None"
| "edges Draft_node End = Some None"
| "edges Safety_review_node Draft = Some (Some Draft_node)"
| "edges Safety_review_node Safety_review = None"
| "edges Safety_review_node Clinical_critique = Some (Some Clinical_critique_node)"
| "edges Safety_review_node Supervisor = Some (Some Supervisor_node)"
| "edges Safety_review_node Halt = Some None"
| "edges Safety_review_node End = Some None"
| "edges Clinical_critique_node Draft = Some (Some Draft_node)"
| "edges Clinical_critique_node Safety_review = None"
| "edges Clinical_critique_node Clinical_critique = None"
| "edges Clinical_critique_node Supervisor = Some (Some Supervisor_node)"
| "edges Clinical_critique_node Halt = Some None"
| "edges Clinical_critique_node End = Some None"
| "edges Supervisor_node Draft = Some (Some Draft_node)"
| "edges Supervisor_node Safety_review = None"
| "edges Supervisor_node Clinical_critique = Some (Some Clinical_critique_node)"
| "edges Supervisor_node Supervisor = Some (Some Supervisor_node)"
| "edges Supervisor_node Halt = Some None"
| "edges Supervisor_node End = Some None"

record agents =
  drafter :: "ProtocolState \<Rightarrow> (exn + draft_result) \<times> ProtocolState"
  safety_guardian :: "ProtocolState \<Rightarrow> (exn + safety_result) \<times> ProtocolState"
  clinical_critic :: "ProtocolState \<Rightarrow> (exn + critique_result) \<times> ProtocolState"
  supervisor :: "ProtocolState \<Rightarrow> (exn + supervisor_result) \<times> ProtocolState"

definition run_node :: "agents \<Rightarrow> datetime \<Rightarrow> node \<Rightarrow> ProtocolState \<Rightarrow> outcome" where
  "run_node ags now n state =
     (case n of
        Draft_node \<Rightarrow> draft_node (drafter ags) now now state
      | Safety_review_node \<Rightarrow> safety_review_node (safety_guardian ags) state
      | Clinical_critique_node \<Rightarrow> clinical_critique_node (clinical_critic ags) state
      | Supervisor_node \<Rightarrow> supervisor_node (supervisor ags) state)"

text \<open>
  The step/router loop of the graph: run the node, ask the router, follow the edge.
  The entry point is \<open>Draft_node\<close>. The loop has no bound of its own, so the model
  counts steps: \<open>Out_of_steps\<close> says the given number of steps did not reach \<open>END\<close>.
\<close>

datatype run_result =
    Finished ProtocolState
  | Failed exn ProtocolState
  | No_edge node route ProtocolState
  | Out_of_steps node ProtocolState

fun run_graph :: "nat \<Rightarrow> agents \<Rightarrow> datetime \<Rightarrow> node \<Rightarrow> ProtocolState \<Rightarrow> run_result" where
  "run_graph 0 ags now n state = Out_of_steps n state"
| "run_graph (Suc k) ags now n state =
     (case run_node ags now n state of
        Raises e s \<Rightarrow> Failed e s
      | Returns s \<Rightarrow>
          (case should_continue s of
             (r, s') \<Rightarrow>
               (case edges n r of
                  None \<Rightarrow> No_edge n r s'
                | Some None \<Rightarrow> Finished s'
                | Some (Some n') \<Rightarrow> run_graph k ags (Suc now) n' s')))"

section \<open>Sequences of blackboard operations\<close>

text \<open>
  The two append operations of \<open>agents/state.py\<close> as calls with their arguments, and a
  state updated by a list of such calls, first call first.
\<close>

datatype blackboard_call =
    Add_draft_version string string "score option" "score option" "score option" datetime datetime
  | Add_agent_note string string "string option" string datetime datetime

fun apply_call :: "ProtocolState \<Rightarrow> blackboard_call \<Rightarrow> ProtocolState" where
  "apply_call s (Add_draft_version txt author ss es cs t1 t2) =
     add_draft_version s txt author ss es cs t1 t2"
| "apply_call s (Add_agent_note name txt target prio t1 t2) =
     add_agent_note s name txt target prio t1 t2"

fun apply_calls :: "ProtocolState \<Rightarrow> blackboard_call list \<Rightarrow> ProtocolState" where
  "apply_calls s [] = s"
| "apply_calls s (c # cs) = apply_calls (apply_call s c) cs"

text \<open>
  The version invariant of the history: the current version is the number of drafts,
  and the draft at index \<open>i\<close> has version \<open>i + 1\<close>.
\<close>

definition versions_ok :: "ProtocolState \<Rightarrow> bool" where
  "versions_ok s = (current_version s = int (length (draft_history s)) \<and>
     map version (draft_history s) = map (\<lambda>i. int i + 1) [0..<length (draft_history s)])"

section \<open>Checkpoint store\<close>

text \<open>
  The checkpointer is LangGraph's. What the endpoints use of it is a map from the
  thread id to the thread's latest values: \<open>aget_state\<close> is the lookup (\<open>None\<close>: the
  snapshot's \<open>values\<close> is empty) and \<open>aupdate_state\<close> stores the full state given to
  it, or raises. Whether the store takes the write is the parameter \<open>accepts\<close>.
\<close>

type_synonym checkpoints = "string \<rightharpoonup> ProtocolState"

type_synonym session_intents = "string \<rightharpoonup> string"

definition aupdate_state ::
  "bool \<Rightarrow> checkpoints \<Rightarrow> string \<Rightarrow> ProtocolState \<Rightarrow> exn + checkpoints" where
  "aupdate_state accepts cp sid values =
     (if accepts then Inr (cp(sid \<mapsto> values)) else Inl (CheckpointError ''aupdate_state''))"

text \<open>
  Modelled from the spec: the drafting collaborator of the external interfaces,
  \<open>draftCollaborator(intent, currentDraft?, notes)\<close>, which returns a result or fails
  (the agent's code, \<open>agents/agents.py\<close>, is not among the sources). It is given the
  three values and not the blackboard, so as an agent call it leaves the state
  dictionary as it was.
\<close>

definition spec_drafter ::
  "(string \<Rightarrow> string option \<Rightarrow> AgentNote list \<Rightarrow> exn + draft_result)
     \<Rightarrow> ProtocolState \<Rightarrow> (exn + draft_result) \<times> ProtocolState" where
  "spec_drafter collaborator state =
     (collaborator (user_intent state) (current_draft state) (agent_notes state), state)"

text \<open>
  Modelled from the spec: one step of the execution engine's run (the graph engine
  that writes the checkpoints is LangGraph's and not among the sources). The engine
  loads the session's state, or fails with \<open>SessionNotFound\<close>; it invokes the step
  function on it; when the step returns it persists the updated state, and when the
  collaborator fails the step is not applied: a step's output is computed fully
  before any persistence call, so nothing is written.
\<close>

datatype step_report = Step_done | Step_failed exn | Session_not_found

definition engine_step ::
  "(ProtocolState \<Rightarrow> outcome) \<Rightarrow> checkpoints \<Rightarrow> string \<Rightarrow> step_report \<times> checkpoints" where
  "engine_step step cp sid =
     (case cp sid of
        None \<Rightarrow> (Session_not_found, cp)
      | Some state \<Rightarrow>
          (case step state of
             Raises e left \<Rightarrow> (Step_failed e, cp)
           | Returns updated \<Rightarrow> (Step_done, cp(sid \<mapsto> updated))))"

section \<open>Endpoints (main.py)\<close>

subsection \<open>create\<close>

record ProtocolRequest =
  intent :: string
  req_session_id :: "string option"
  req_metadata :: "(string \<rightharpoonup> string) option"

record ProtocolResponse =
  resp_session_id :: string
  resp_status :: string
  resp_message :: string
  resp_timestamp :: "datetime option"

text \<open>
  \<open>has_aupdate\<close> is \<open>hasattr(workflow, 'aupdate_state')\<close>, \<open>generated\<close> the session
  id made from the clock when the request has none, \<open>now\<close> the clock read of
  \<open>create_initial_state\<close> and \<open>now'\<close> that of the response. The calls outside the
  inner \<open>try\<close> are taken to return, so the handler of the outer one is not reached.
  The background task added before the response starts after it and is not part of
  what the call returns.
\<close>

definition request_session_id :: "ProtocolRequest \<Rightarrow> string \<Rightarrow> string" where
  "request_session_id request generated =
     (case req_session_id request of
        None \<Rightarrow> generated
      | Some x \<Rightarrow> if x = [] then generated else x)"

definition create_protocol ::
  "bool \<Rightarrow> bool \<Rightarrow> string \<Rightarrow> datetime \<Rightarrow> datetime \<Rightarrow> checkpoints \<Rightarrow> session_intents
     \<Rightarrow> ProtocolRequest \<Rightarrow> ProtocolResponse \<times> checkpoints \<times> session_intents" where
  "create_protocol has_aupdate accepts generated now now' cp intents request =
     (let sid = request_session_id request generated;
          intents1 = intents(sid \<mapsto> intent request);
          initial_state = create_initial_state (intent request) sid 5 now;
          created = (if has_aupdate
                     then (case aupdate_state accepts cp sid initial_state of
                             Inl e \<Rightarrow> (False, cp)
                           | Inr cp' \<Rightarrow> (True, cp'))
                     else (False, cp));
          intents2 = (if fst created then intents1(sid := None) else intents1)
      in (\<lparr> resp_session_id = sid,
             resp_status = ''initializing'',
             resp_message = ''Protocol generation initialized. Workflow execution started.'',
             resp_timestamp = Some now' \<rparr>,
          snd created, intents2))"

subsection \<open>stream\<close>

text \<open>
  The events of the generator. The serialised state is the state (\<open>None\<close> is the empty
  dictionary): \<open>serialize_state_for_json\<close> renders timestamps as ISO strings and
  changes nothing else.
\<close>

definition serialize_state_for_json :: "ProtocolState option \<Rightarrow> ProtocolState option" where
  "serialize_state_for_json state = state"

datatype sse_event =
    Complete "ProtocolState option" datetime
  | Halted_event "ProtocolState option" string datetime
  | State_update string "ProtocolState option" string "string option" datetime
  | Error_event detail

text \<open>
  A run of the graph by \<open>workflow.astream(None, config)\<close> is a parameter: the events
  it yields, each with the names of the nodes it reports and the values \<open>aget_state\<close>
  gives right after it, the exception that ends it if one does, and the store it
  leaves.
\<close>

record stream_run =
  run_events :: "(string list \<times> ProtocolState option) list"
  run_raised :: "exn option"
  run_checkpoints :: checkpoints

definition agent_thought :: "ProtocolState option \<Rightarrow> string" where
  "agent_thought full_state =
     (case full_state of
        None \<Rightarrow> []
      | Some s \<Rightarrow> if agent_notes s = [] then [] else note_text (last (agent_notes s)))"

definition paused :: "ProtocolState option \<Rightarrow> bool" where
  "paused full_state =
     (case full_state of
        None \<Rightarrow> False
      | Some s \<Rightarrow> halted s \<or> status s = ''awaiting_approval'')"

text \<open>
  The inner loop over the nodes of one event; \<open>k\<close> counts the clock reads of the
  request so far. The \<open>break\<close> after a halted event leaves this loop only.
\<close>

fun emit_nodes ::
  "(nat \<Rightarrow> datetime) \<Rightarrow> nat \<Rightarrow> string list \<Rightarrow> ProtocolState option \<Rightarrow> sse_event list \<times> nat" where
  "emit_nodes clock k [] full_state = ([], k)"
| "emit_nodes clock k (node_name # rest) full_state =
     (let update = State_update node_name (serialize_state_for_json full_state)
                     (agent_thought full_state)
                     (case full_state of None \<Rightarrow> None | Some s \<Rightarrow> active_agent s)
                     (clock k)
      in if paused full_state
         then ([update,
                Halted_event (serialize_state_for_json full_state)
                  ''Workflow paused for human review'' (clock (k + 1))], k + 2)
         else (case emit_nodes clock (k + 1) rest full_state of
                 (evs, k') \<Rightarrow> (update # evs, k')))"

fun emit_events ::
  "(nat \<Rightarrow> datetime) \<Rightarrow> nat \<Rightarrow> (string list \<times> ProtocolState option) list
     \<Rightarrow> sse_event list \<times> nat" where
  "emit_events clock k [] = ([], k)"
| "emit_events clock k ((names, full_state) # rest) =
     (case emit_nodes clock k names full_state of
        (evs, k') \<Rightarrow>
          (case emit_events clock k' rest of
             (evs', k'') \<Rightarrow> (evs @ evs', k'')))"

text \<open>The last part of the generator: run the graph unless the status forbids it, then
  send the final state.\<close>

definition stream_workflow ::
  "(checkpoints \<Rightarrow> string \<Rightarrow> stream_run) \<Rightarrow> (nat \<Rightarrow> datetime) \<Rightarrow> nat \<Rightarrow> ProtocolState
     \<Rightarrow> checkpoints \<Rightarrow> session_intents \<Rightarrow> string
     \<Rightarrow> sse_event list \<times> checkpoints \<times> session_intents" where
  "stream_workflow astream clock k initial_state cp intents sid =
     (if status initial_state \<noteq> ''completed'' \<and> status initial_state \<noteq> ''awaiting_approval''
      then (let run = astream cp sid in
            case emit_events clock k (run_events run) of
              (evs, k') \<Rightarrow>
                (case run_raised run of
                   Some e \<Rightarrow> (evs @ [Error_event (Str e)], run_checkpoints run, intents)
                 | None \<Rightarrow>
                     (evs @ [Complete (serialize_state_for_json (run_checkpoints run sid))
                                      (clock k')],
                      run_checkpoints run, intents)))
      else ([Complete (serialize_state_for_json (cp sid)) (clock k)], cp, intents))"

definition stream_protocol ::
  "(checkpoints \<Rightarrow> string \<Rightarrow> stream_run) \<Rightarrow> bool \<Rightarrow> (nat \<Rightarrow> datetime)
     \<Rightarrow> checkpoints \<Rightarrow> session_intents \<Rightarrow> string
     \<Rightarrow> sse_event list \<times> checkpoints \<times> session_intents" where
  "stream_protocol astream accepts clock cp intents sid =
     (case cp sid of
        Some values \<Rightarrow>
          if status values = ''completed''
          then ([Complete (serialize_state_for_json (Some values)) (clock 0)], cp, intents)
          else if halted values \<or> status values = ''awaiting_approval''
          then ([Halted_event (serialize_state_for_json (Some values))
                   ''Workflow paused for human review'' (clock 0)], cp, intents)
          else if status values = ''initializing''
          then stream_workflow astream clock 0 values cp intents sid
          else if halted values \<or> status values = ''awaiting_approval''
          then ([Halted_event (serialize_state_for_json (Some values))
                   ''Workflow is already paused for human review'' (clock 0)], cp, intents)
          else stream_workflow astream clock 0 values cp intents sid
      | None \<Rightarrow>
          (case intents sid of
             Some user_intent' \<Rightarrow>
               (let initial_state = create_initial_state user_intent' sid 5 (clock 0) in
                case aupdate_state accepts cp sid initial_state of
                  Inl e \<Rightarrow> ([Error_event (Str e)], cp, intents)
                | Inr cp' \<Rightarrow>
                    stream_workflow astream clock 1 initial_state cp' (intents(sid := None)) sid)
           | None \<Rightarrow>
               ([Error_event (Literal
                   ''No initial state found. Please create protocol first using /api/protocols/create endpoint.'')],
                cp, intents)))"

subsection \<open>approve and halt\<close>

text \<open>
  \<open>str.strip()\<close> removes the white space of both ends. A \<open>char\<close> is read as the code
  point of its number; below 256 the code points \<open>str.isspace\<close> accepts are these.
\<close>

definition py_isspace :: "char \<Rightarrow> bool" where
  "py_isspace c = (of_char c \<in> {9, 10, 11, 12, 13, 28, 29, 30, 31, 32, 133, 160 :: nat})"

definition py_strip :: "string \<Rightarrow> string" where
  "py_strip s = rev (dropWhile py_isspace (rev (dropWhile py_isspace s)))"

text \<open>
  The edit step of \<open>approve_protocol\<close>: the copy of the stored values with the edits
  applied, and \<open>has_edits\<close>. With a truthy \<open>approved_content\<close> the code calls
  \<open>.strip()\<close> on the stored \<open>current_draft\<close>; on \<open>None\<close> that raises.
\<close>

definition approve_edits ::
  "ProtocolState \<Rightarrow> string option \<Rightarrow> exn + (ProtocolState \<times> bool)" where
  "approve_edits values approved_content =
     (case approved_content of
        None \<Rightarrow> Inr (values, False)
      | Some approved \<Rightarrow>
          if approved = [] then Inr (values, False)
          else (case current_draft values of
                  None \<Rightarrow> Inl (AttributeError ''NoneType object has no attribute strip'')
                | Some current \<Rightarrow>
                    if py_strip approved \<noteq> py_strip current
                    then Inr (values\<lparr> current_draft := Some approved,
                                       human_edits := Some approved \<rparr>, True)
                    else Inr (values, False)))"

text \<open>The state \<open>approve_protocol\<close> hands to the first \<open>aupdate_state\<close>.\<close>

definition approve_update ::
  "(nat \<Rightarrow> datetime) \<Rightarrow> ProtocolState \<Rightarrow> string option \<Rightarrow> exn + ProtocolState" where
  "approve_update clock values approved_content =
     (case approve_edits values approved_content of
        Inl e \<Rightarrow> Inl e
      | Inr (updated, has_edits) \<Rightarrow>
          (let approval_message = ''Protocol approved and finalized''
                                    @ (if has_edits then '' (with edits)'' else []);
               noted = add_agent_note updated ''Human'' approval_message None ''info''
                         (clock 0) (clock 1)
           in Inr (noted\<lparr> human_approved := True, halted := False, status := ''approved'' \<rparr>)))"

record approve_response =
  ar_session_id :: string
  ar_status :: string
  ar_message :: string
  ar_final_state :: ProtocolState

text \<open>
  The resumed run, \<open>workflow.ainvoke(None, config)\<close>, is a parameter: from the store
  and the thread id it raises or gives the final values and the store it leaves.
  \<open>approve_resume\<close> is the endpoint from that call on.
\<close>

definition approve_resume ::
  "(checkpoints \<Rightarrow> string \<Rightarrow> exn + ProtocolState \<times> checkpoints) \<Rightarrow> bool
     \<Rightarrow> (nat \<Rightarrow> datetime) \<Rightarrow> checkpoints \<Rightarrow> string
     \<Rightarrow> (exn + approve_response) \<times> checkpoints" where
  "approve_resume ainvoke accepts2 clock cp sid =
     (case ainvoke cp sid of
        Inl e \<Rightarrow> (Inl e, cp)
      | Inr (result, cp') \<Rightarrow>
          if status result = ''completed''
          then (let noted = add_agent_note result ''System''
                              ''Protocol generation completed successfully'' None ''info''
                              (clock 2) (clock 3)
                in case aupdate_state accepts2 cp' sid noted of
                     Inl e \<Rightarrow> (Inl e, cp')
                   | Inr cp'' \<Rightarrow>
                       (Inr \<lparr> ar_session_id = sid, ar_status = ''approved'',
                              ar_message = ''Protocol approved and workflow resumed'',
                              ar_final_state = noted \<rparr>, cp''))
          else (Inr \<lparr> ar_session_id = sid, ar_status = ''approved'',
                       ar_message = ''Protocol approved and workflow resumed'',
                       ar_final_state = result \<rparr>, cp'))"

text \<open>The body of the \<open>try\<close> of \<open>approve_protocol\<close>.\<close>

definition approve_body ::
  "(checkpoints \<Rightarrow> string \<Rightarrow> exn + ProtocolState \<times> checkpoints) \<Rightarrow> bool \<Rightarrow> bool
     \<Rightarrow> (nat \<Rightarrow> datetime) \<Rightarrow> checkpoints \<Rightarrow> string \<Rightarrow> string option
     \<Rightarrow> (exn + approve_response) \<times> checkpoints" where
  "approve_body ainvoke accepts1 accepts2 clock cp sid approved_content =
     (case cp sid of
        None \<Rightarrow> (Inl (HTTPException 404 (Literal ''Session not found'')), cp)
      | Some values \<Rightarrow>
          (case approve_update clock values approved_content of
             Inl e \<Rightarrow> (Inl e, cp)
           | Inr updated_state \<Rightarrow>
               (case aupdate_state accepts1 cp sid updated_state of
                  Inl e \<Rightarrow> (Inl e, cp)
                | Inr cp' \<Rightarrow> approve_resume ainvoke accepts2 clock cp' sid)))"

text \<open>
  \<open>except Exception as e: raise HTTPException(status_code=500, detail=str(e))\<close>: every
  exception of the body, an \<open>HTTPException\<close> too, leaves the endpoint as a 500.
\<close>

definition except_500 :: "(exn + 'a) \<times> checkpoints \<Rightarrow> (exn + 'a) \<times> checkpoints" where
  "except_500 res =
     (case res of
        (Inl e, cp) \<Rightarrow> (Inl (HTTPException 500 (Str e)), cp)
      | (Inr r, cp) \<Rightarrow> (Inr r, cp))"

definition approve_protocol ::
  "(checkpoints \<Rightarrow> string \<Rightarrow> exn + ProtocolState \<times> checkpoints) \<Rightarrow> bool \<Rightarrow> bool
     \<Rightarrow> (nat \<Rightarrow> datetime) \<Rightarrow> checkpoints \<Rightarrow> string \<Rightarrow> string option
     \<Rightarrow> (exn + approve_response) \<times> checkpoints" where
  "approve_protocol ainvoke accepts1 accepts2 clock cp sid approved_content =
     except_500 (approve_body ainvoke accepts1 accepts2 clock cp sid approved_content)"

record halt_response =
  hr_session_id :: string
  hr_status :: string
  hr_current_draft :: "string option"
  hr_message :: string

definition halt_body ::
  "bool \<Rightarrow> (nat \<Rightarrow> datetime) \<Rightarrow> checkpoints \<Rightarrow> string \<Rightarrow> (exn + halt_response) \<times> checkpoints" where
  "halt_body accepts clock cp sid =
     (case cp sid of
        None \<Rightarrow> (Inl (HTTPException 404 (Literal ''Session not found'')), cp)
      | Some values \<Rightarrow>
          (let updated = values\<lparr> status := ''awaiting_approval'', halted := True \<rparr>;
               noted = add_agent_note updated ''Human'' ''Workflow halted for review'' None
                         ''warning'' (clock 0) (clock 1)
           in case aupdate_state accepts cp sid noted of
                Inl e \<Rightarrow> (Inl e, cp)
              | Inr cp' \<Rightarrow>
                  (Inr \<lparr> hr_session_id = sid, hr_status = ''halted'',
                         hr_current_draft = current_draft noted,
                         hr_message = ''Workflow paused for human review'' \<rparr>, cp')))"

definition halt_protocol ::
  "bool \<Rightarrow> (nat \<Rightarrow> datetime) \<Rightarrow> checkpoints \<Rightarrow> string \<Rightarrow> (exn + halt_response) \<times> checkpoints" where
  "halt_protocol accepts clock cp sid = except_500 (halt_body accepts clock cp sid)"

section \<open>Scenarios\<close>

text \<open>A graph run that does nothing, and a resumed run that returns the stored values.\<close>

definition idle_run :: "checkpoints \<Rightarrow> string \<Rightarrow> stream_run" where
  "idle_run cp sid = \<lparr> run_events = [], run_raised = None, run_checkpoints = cp \<rparr>"

definition resume_stored :: "checkpoints \<Rightarrow> string \<Rightarrow> exn + ProtocolState \<times> checkpoints" where
  "resume_stored cp sid =
     (case cp sid of
        None \<Rightarrow> Inl (CheckpointError ''no checkpoint'')
      | Some s \<Rightarrow> Inr (s, cp))"

fun final_state :: "run_result \<Rightarrow> ProtocolState" where
  "final_state (Finished s) = s"
| "final_state (Failed e s) = s"
| "final_state (No_edge n r s) = s"
| "final_state (Out_of_steps n s) = s"

text \<open>
  Agents for the scenario of a supervisor that asks for a revision every time: the
  drafter returns a draft, the safety guardian and the clinical critic return nothing,
  the supervisor returns \<open>needs_revision\<close>. None of them writes to the state it is
  handed.
\<close>

definition revising_agents :: agents where
  "revising_agents =
     \<lparr> drafter = (\<lambda>s. (Inr \<lparr> r_current_draft = Some (Some ''draft''),
                               r_active_agent = None, r_status = None \<rparr>, s)),
       safety_guardian = (\<lambda>s. (Inr \<lparr> sr_safety_checks = None, sr_safety_score = None,
                                       sr_status = None \<rparr>, s)),
       clinical_critic = (\<lambda>s. (Inr \<lparr> cr_empathy_score = None, cr_clinical_score = None,
                                       cr_status = None \<rparr>, s)),
       supervisor = (\<lambda>s. (Inr \<lparr> sup_status = Some ''needs_revision'', sup_halted = None \<rparr>,
                            s)) \<rparr>"

text \<open>
  A drafting agent that writes to the state it is handed and then raises, and a
  drafting collaborator of the specification's shape that raises.
\<close>

definition writing_failing_drafter :: "ProtocolState \<Rightarrow> (exn + draft_result) \<times> ProtocolState" where
  "writing_failing_drafter s = (Inl (AgentError ''timeout''), s\<lparr> status := ''half written'' \<rparr>)"

definition failing_collaborator ::
  "string \<Rightarrow> string option \<Rightarrow> AgentNote list \<Rightarrow> exn + draft_result" where
  "failing_collaborator user_intent' draft notes = Inl (AgentError ''timeout'')"

section \<open>Helper facts\<close>

lemma starts_with_iff: "starts_with sub s \<longleftrightarrow> (\<exists>ss. s = sub @ ss)"
  by (induction sub s rule: starts_with.induct) auto

lemma py_in_iff: "py_in sub s \<longleftrightarrow> (\<exists>ps ss. s = ps @ sub @ ss)"
proof (induction s)
  case Nil
  then show ?case by auto
next
  case (Cons d ds)
  show ?case
  proof
    assume "py_in sub (d # ds)"
    then consider "starts_with sub (d # ds)" | "py_in sub ds" by auto
    then show "\<exists>ps ss. d # ds = ps @ sub @ ss"
    proof cases
      case 1
      then obtain ss where "d # ds = sub @ ss" by (auto simp: starts_with_iff)
      then have "d # ds = [] @ sub @ ss" by simp
      then show ?thesis by blast
    next
      case 2
      then obtain ps ss where "ds = ps @ sub @ ss" using Cons.IH by blast
      then have "d # ds = (d # ps) @ sub @ ss" by simp
      then show ?thesis by blast
    qed
  next
    assume "\<exists>ps ss. d # ds = ps @ sub @ ss"
    then obtain ps ss where eq: "d # ds = ps @ sub @ ss" by blast
    show "py_in sub (d # ds)"
    proof (cases ps)
      case Nil
      then have "starts_with sub (d # ds)" using eq by (auto simp: starts_with_iff)
      then show ?thesis by simp
    next
      case (Cons p ps')
      then have "ds = ps' @ sub @ ss" using eq by simp
      then have "py_in sub ds" using Cons.IH by blast
      then show ?thesis by simp
    qed
  qed
qed

lemma versions_ok_call: "versions_ok s \<Longrightarrow> versions_ok (apply_call s c)"
  by (cases c) (simp_all add: versions_ok_def add_draft_version_def add_agent_note_def Let_def)

lemma versions_ok_calls: "versions_ok s \<Longrightarrow> versions_ok (apply_calls s cs)"
  by (induction cs arbitrary: s) (simp_all add: versions_ok_call)

lemma versions_ok_initial: "versions_ok (create_initial_state i sid m now)"
  by (simp add: versions_ok_def create_initial_state_def)

lemma versions_ok_nth:
  assumes ok: "versions_ok s" and k: "k < length (draft_history s)"
  shows "version (draft_history s ! k) = int k + 1"
proof -
  have "version (draft_history s ! k) = map version (draft_history s) ! k"
    using k by simp
  also have "\<dots> = map (\<lambda>i. int i + 1) [0..<length (draft_history s)] ! k"
    using ok by (simp add: versions_ok_def)
  also have "\<dots> = int k + 1"
    using k by (simp del: upt_Suc)
  finally show ?thesis .
qed

lemma versions_ok_sorted:
  assumes ok: "versions_ok s"
  shows "sorted_wrt (<) (map version (draft_history s))"
proof -
  have "sorted_wrt (<) (map (\<lambda>i. int i + 1) [0..<length (draft_history s)])"
    by (simp add: sorted_wrt_iff_nth_less del: upt_Suc)
  then show ?thesis using ok by (simp add: versions_ok_def)
qed

section \<open>The router is pure\<close>

text \<open>
  Claim C9. The router is a deterministic function of the state that leaves the state
  as it found it: the state after the call is the state before it (the assignment to
  \<open>halted\<close> is reached only when \<open>halted\<close> is already false), and the decision is a
  function of the five fields \<open>halted\<close>, \<open>human_approved\<close>, \<open>active_agent\<close>,
  \<open>status\<close> and \<open>current_draft\<close> alone, so equal states get equal decisions.
\<close>

theorem should_continue_pure:
  "snd (should_continue s) = s \<and>
   (halted s = halted s' \<and> human_approved s = human_approved s' \<and>
    active_agent s = active_agent s' \<and> status s = status s' \<and>
    current_draft s = current_draft s'
      \<longrightarrow> fst (should_continue s) = fst (should_continue s'))"
  by (simp add: should_continue_def)

theorem should_continue_pure_witness:
  "(let s = (create_initial_state ''intent'' ''s1'' 5 0)\<lparr> human_approved := True \<rparr>;
        s' = s\<lparr> iteration_count := 7 \<rparr>
    in halted s = halted s' \<and> human_approved s = human_approved s' \<and>
       active_agent s = active_agent s' \<and> status s = status s' \<and>
       current_draft s = current_draft s' \<and> iteration_count s \<noteq> iteration_count s' \<and>
       snd (should_continue s) = s \<and>
       fst (should_continue s) = fst (should_continue s') \<and>
       fst (should_continue s) = End)"
  using should_continue_pure
    [of "(create_initial_state ''intent'' ''s1'' 5 0)\<lparr> human_approved := True \<rparr>"
        "(create_initial_state ''intent'' ''s1'' 5 0)\<lparr> human_approved := True,
                                                          iteration_count := 7 \<rparr>"]
  by (simp add: Let_def create_initial_state_def should_continue_def)

section \<open>The router and the decision table\<close>

text \<open>
  Claim C2, as stated, fails: the code tests \<open>not state.get("current_draft")\<close>, which
  holds for the empty string as well as for \<open>None\<close>. A state that reaches rule 7 with
  an empty draft is routed to \<open>draft\<close>, where the table's rule 7 ("absent") does not
  match and rule 8 gives \<open>supervise\<close>.
\<close>

theorem should_continue_table_counterexample:
  "fst (should_continue ((create_initial_state ''intent'' ''s1'' 5 0)\<lparr> current_draft := Some [] \<rparr>))
     = Draft \<and>
   route_table ((create_initial_state ''intent'' ''s1'' 5 0)\<lparr> current_draft := Some [] \<rparr>)
     = Supervisor"
  by (simp add: create_initial_state_def should_continue_def route_table_def truthy_def)

text \<open>
  Claim C2, amended. For every state the router's decision is the decision of the
  table, rules 1 to 8 in order, once an empty \<open>current_draft\<close> is read as an absent
  one: rule 7 is "current_draft absent or empty".
\<close>

theorem should_continue_table:
  "fst (should_continue s)
     = route_table (if current_draft s = Some [] then s\<lparr> current_draft := None \<rparr> else s)"
  by (cases "current_draft s") (simp_all add: should_continue_def route_table_def truthy_def)

section \<open>The router and the iteration cap\<close>

text \<open>
  Claim C1, as stated, fails: the router never reads \<open>iteration_count\<close> or
  \<open>max_iterations\<close>. With \<open>max_iterations = 1\<close> and a supervisor that always asks
  for a revision, the graph run from the initial state drafts, reviews, critiques and
  supervises; the router then answers \<open>draft\<close> although the count has reached the cap
  (four steps), and the fifth step drafts again and leaves \<open>iteration_count = 2\<close>.
\<close>

theorem iteration_cap_counterexample:
  "fst (should_continue (final_state
       (run_graph 4 revising_agents 0 Draft_node (create_initial_state ''intent'' ''s1'' 1 0))))
     = Draft \<and>
   iteration_count (final_state
       (run_graph 4 revising_agents 0 Draft_node (create_initial_state ''intent'' ''s1'' 1 0)))
     = 1 \<and>
   max_iterations (final_state
       (run_graph 4 revising_agents 0 Draft_node (create_initial_state ''intent'' ''s1'' 1 0)))
     = 1 \<and>
   iteration_count (final_state
       (run_graph 5 revising_agents 0 Draft_node (create_initial_state ''intent'' ''s1'' 1 0)))
     = 2 \<and>
   max_iterations (final_state
       (run_graph 5 revising_agents 0 Draft_node (create_initial_state ''intent'' ''s1'' 1 0)))
     = 1"
  by (simp add: eval_nat_numeral run_node_def revising_agents_def create_initial_state_def
      draft_node_def safety_review_node_def clinical_critique_node_def supervisor_node_def
      add_draft_version_def should_continue_def truthy_def Let_def)

text \<open>
  Claim C1, amended. The router's decision does not depend on \<open>iteration_count\<close> or
  \<open>max_iterations\<close>. In a state that is neither halted nor approved it answers
  \<open>draft\<close> when the supervisor was the last agent and the status contains
  \<open>needs_revision\<close>, and when none of the four agents was the last and there is no
  (or an empty) current draft, whatever the two counters are. A draft step whose agent
  returns adds one to \<open>iteration_count\<close> and leaves \<open>max_iterations\<close> alone, so the
  count can pass the cap. (The step counts from the state as the agent's call leaves
  it, \<open>s1\<close> below; for an agent that does not write to the state, \<open>s1\<close> is \<open>s\<close>.)
\<close>

theorem router_ignores_iteration_cap:
  "fst (should_continue (s\<lparr> iteration_count := n, max_iterations := m \<rparr>))
     = fst (should_continue s) \<and>
   (\<not> halted s \<and> \<not> human_approved s \<and> active_agent s = Some ''Supervisor'' \<and>
    py_in ''needs_revision'' (status s)
      \<longrightarrow> fst (should_continue s) = Draft) \<and>
   (\<not> halted s \<and> \<not> human_approved s \<and> active_agent s \<noteq> Some ''Drafter'' \<and>
    active_agent s \<noteq> Some ''SafetyGuardian'' \<and> active_agent s \<noteq> Some ''ClinicalCritic'' \<and>
    active_agent s \<noteq> Some ''Supervisor'' \<and> \<not> truthy (current_draft s)
      \<longrightarrow> fst (should_continue s) = Draft) \<and>
   (dr s = (Inr r, s1)
      \<longrightarrow> (\<exists>s'. draft_node dr t1 t2 s = Returns s' \<and>
                iteration_count s' = iteration_count s1 + 1 \<and>
                max_iterations s' = max_iterations s1))"
proof -
  have independent: "fst (should_continue (s\<lparr> iteration_count := n, max_iterations := m \<rparr>))
      = fst (should_continue s)"
    by (simp add: should_continue_def)
  have revise: "fst (should_continue s) = Draft"
    if "\<not> halted s" "\<not> human_approved s" "active_agent s = Some ''Supervisor''"
       "py_in ''needs_revision'' (status s)"
    using that by (simp add: should_continue_def)
  have start: "fst (should_continue s) = Draft"
    if "\<not> halted s" "\<not> human_approved s" "active_agent s \<noteq> Some ''Drafter''"
       "active_agent s \<noteq> Some ''SafetyGuardian''" "active_agent s \<noteq> Some ''ClinicalCritic''"
       "active_agent s \<noteq> Some ''Supervisor''" "\<not> truthy (current_draft s)"
    using that by (simp add: should_continue_def)
  have step: "\<exists>s'. draft_node dr t1 t2 s = Returns s' \<and>
      iteration_count s' = iteration_count s1 + 1 \<and> max_iterations s' = max_iterations s1"
    if "dr s = (Inr r, s1)"
    using that
    by (simp add: draft_node_def add_draft_version_def Let_def split: option.splits)
  show ?thesis using independent revise start step by blast
qed

theorem router_ignores_iteration_cap_witness:
  "(let s = (create_initial_state ''intent'' ''s1'' 5 0)
              \<lparr> status := ''needs_revision'', current_draft := Some ''draft'',
                iteration_count := 5, active_agent := Some ''Supervisor'' \<rparr>
    in \<not> halted s \<and> \<not> human_approved s \<and> active_agent s = Some ''Supervisor'' \<and>
       py_in ''needs_revision'' (status s) \<and> max_iterations s \<le> iteration_count s \<and>
       fst (should_continue s) = Draft \<and>
       fst (should_continue (s\<lparr> iteration_count := 0, max_iterations := 9 \<rparr>)) = Draft \<and>
       (\<exists>s'. draft_node (drafter revising_agents) 1 2 s = Returns s' \<and>
             iteration_count s' = 6 \<and> max_iterations s' = 5)) \<and>
   (let s = create_initial_state ''intent'' ''s1'' 0 0
    in \<not> halted s \<and> \<not> human_approved s \<and> active_agent s = None \<and>
       \<not> truthy (current_draft s) \<and> max_iterations s \<le> iteration_count s \<and>
       fst (should_continue s) = Draft)"
  using router_ignores_iteration_cap
    [where s = "(create_initial_state ''intent'' ''s1'' 5 0)
                  \<lparr> status := ''needs_revision'', current_draft := Some ''draft'',
                    iteration_count := 5, active_agent := Some ''Supervisor'' \<rparr>"
       and n = 0 and m = 9 and dr = "drafter revising_agents"
       and r = "\<lparr> r_current_draft = Some (Some ''draft''), r_active_agent = None,
                  r_status = None \<rparr>"
       and ?s1.0 = "(create_initial_state ''intent'' ''s1'' 5 0)
                  \<lparr> status := ''needs_revision'', current_draft := Some ''draft'',
                    iteration_count := 5, active_agent := Some ''Supervisor'' \<rparr>"
       and ?t1.0 = 1 and ?t2.0 = 2]
    router_ignores_iteration_cap
    [where s = "create_initial_state ''intent'' ''s1'' 0 0"
       and n = 0 and m = 0 and dr = "drafter revising_agents"
       and r = "\<lparr> r_current_draft = Some (Some ''draft''), r_active_agent = None,
                  r_status = None \<rparr>"
       and ?s1.0 = "create_initial_state ''intent'' ''s1'' 0 0"
       and ?t1.0 = 1 and ?t2.0 = 2]
  by (simp add: Let_def create_initial_state_def revising_agents_def truthy_def)

section \<open>Draft versions\<close>

text \<open>
  Claim C3. \<open>add_draft_version\<close> appends exactly one record, whose version is the
  previous \<open>current_version\<close> plus one and whose iteration is the state's
  \<open>iteration_count\<close>; \<open>current_version\<close> becomes that version, \<open>current_draft\<close> the
  given content and \<open>last_update\<close> the new clock value. Hence in every state built
  from the initial state by the append operations of the blackboard, the draft at any
  index \<open>k\<close> has version \<open>k + 1\<close>, the versions are strictly increasing, and
  \<open>current_version\<close> is the number of drafts.
\<close>

theorem add_draft_version_versions:
  "draft_history (add_draft_version s txt author ss es cs t1 t2)
     = draft_history s @
       [\<lparr> content = txt, version = current_version s + 1, iteration = iteration_count s,
          created_by = author, timestamp = t1, draft_safety_score = ss,
          draft_empathy_score = es, draft_clinical_score = cs, feedback = [] \<rparr>] \<and>
   current_version (add_draft_version s txt author ss es cs t1 t2) = current_version s + 1 \<and>
   current_draft (add_draft_version s txt author ss es cs t1 t2) = Some txt \<and>
   last_update (add_draft_version s txt author ss es cs t1 t2) = t2 \<and>
   (\<forall>k < length (draft_history (apply_calls (create_initial_state i sid m now) calls)).
      version (draft_history (apply_calls (create_initial_state i sid m now) calls) ! k)
        = int k + 1) \<and>
   sorted_wrt (<)
     (map version (draft_history (apply_calls (create_initial_state i sid m now) calls))) \<and>
   current_version (apply_calls (create_initial_state i sid m now) calls)
     = int (length (draft_history (apply_calls (create_initial_state i sid m now) calls)))"
proof -
  have ok: "versions_ok (apply_calls (create_initial_state i sid m now) calls)"
    by (rule versions_ok_calls [OF versions_ok_initial])
  have one: "draft_history (add_draft_version s txt author ss es cs t1 t2)
     = draft_history s @
       [\<lparr> content = txt, version = current_version s + 1, iteration = iteration_count s,
          created_by = author, timestamp = t1, draft_safety_score = ss,
          draft_empathy_score = es, draft_clinical_score = cs, feedback = [] \<rparr>]"
    by (simp add: add_draft_version_def Let_def)
  have two: "current_version (add_draft_version s txt author ss es cs t1 t2) = current_version s + 1"
    by (simp add: add_draft_version_def Let_def)
  have three: "current_draft (add_draft_version s txt author ss es cs t1 t2) = Some txt"
    by (simp add: add_draft_version_def Let_def)
  have four: "last_update (add_draft_version s txt author ss es cs t1 t2) = t2"
    by (simp add: add_draft_version_def Let_def)
  show ?thesis
    using one two three four versions_ok_nth [OF ok] versions_ok_sorted [OF ok] ok
    unfolding versions_ok_def by blast
qed

theorem add_draft_version_versions_witness:
  "(let S = apply_calls (create_initial_state ''intent'' ''s1'' 5 0)
              [Add_draft_version ''first'' ''Drafter'' None None None 1 2,
               Add_agent_note ''Human'' ''note'' None ''info'' 3 4,
               Add_draft_version ''second'' ''Drafter'' None None None 5 6]
    in length (draft_history S) = 2 \<and> (1::nat) < length (draft_history S) \<and>
       version (draft_history S ! 0) = 1 \<and> version (draft_history S ! 1) = 2 \<and>
       current_version S = 2 \<and> current_draft S = Some ''second'' \<and> last_update S = 6)"
  using add_draft_version_versions
    [where i = "''intent''" and sid = "''s1''" and m = 5 and now = 0
       and calls = "[Add_draft_version ''first'' ''Drafter'' None None None 1 2,
               Add_agent_note ''Human'' ''note'' None ''info'' 3 4,
               Add_draft_version ''second'' ''Drafter'' None None None 5 6]"]
  by (simp add: Let_def create_initial_state_def add_draft_version_def add_agent_note_def)

section \<open>A failing draft step\<close>

text \<open>
  Claim C5. If the call of the drafting agent raises, the draft step raises that
  exception without a write of its own: the state dictionary is as the agent's call
  left it, the step raises in no other way, and a graph run that is at the draft node
  stops there, before any further step. With the drafting collaborator of the
  specification, which is not handed the blackboard, the state after the failing step
  is the state before it, every field included. In the engine's step nothing is
  persisted when the draft step fails, whatever the agent did to the dictionary it was
  handed: the store is the store before the step, so the session's state keeps every
  value, and a later draft step on that store starts from the same checkpoint and
  persists its result. The stream endpoint adds no write either: when the run it
  drives fails at its first draft step, the stream is one error event and the store
  and the intents are as before.
\<close>

theorem draft_node_failure:
  "(fst (dr s) = Inl e \<longrightarrow> draft_node dr t1 t2 s = Raises e (snd (dr s))) \<and>
   (draft_node dr t1 t2 s = Raises e s' \<longrightarrow> dr s = (Inl e, s')) \<and>
   (fst (drafter ags s) = Inl e \<longrightarrow>
      run_graph (Suc k) ags now Draft_node s = Failed e (snd (drafter ags s))) \<and>
   (collaborator (user_intent s) (current_draft s) (agent_notes s) = Inl e \<longrightarrow>
      draft_node (spec_drafter collaborator) t1 t2 s = Raises e s) \<and>
   (cp sid = Some s \<and> fst (dr s) = Inl e \<longrightarrow>
      engine_step (draft_node dr t1 t2) cp sid = (Step_failed e, cp)) \<and>
   (cp sid = Some s \<and> fst (dr s) = Inl e \<and> draft_node dr' u1 u2 s = Returns s'' \<longrightarrow>
      engine_step (draft_node dr' u1 u2) (snd (engine_step (draft_node dr t1 t2) cp sid)) sid
        = (Step_done, cp(sid \<mapsto> s''))) \<and>
   (cp sid = Some s \<and> status s \<noteq> ''completed'' \<and> \<not> halted s \<and>
    status s \<noteq> ''awaiting_approval'' \<and> fst (dr s) = Inl e \<and>
    astream cp sid = \<lparr> run_events = [],
                        run_raised = (case fst (engine_step (draft_node dr t1 t2) cp sid) of
                                        Step_failed x \<Rightarrow> Some x | _ \<Rightarrow> None),
                        run_checkpoints = snd (engine_step (draft_node dr t1 t2) cp sid) \<rparr> \<longrightarrow>
      stream_protocol astream accepts clock cp intents sid
        = ([Error_event (Str e)], cp, intents))"
proof -
  have raises: "draft_node d v1 v2 s = Raises e (snd (d s))" if "fst (d s) = Inl e" for d v1 v2
    using that by (simp add: draft_node_def Let_def)
  have only: "dr s = (Inl e, s')" if "draft_node dr t1 t2 s = Raises e s'"
  proof (cases "fst (dr s)")
    case (Inl x)
    then have "draft_node dr t1 t2 s = Raises x (snd (dr s))"
      by (simp add: draft_node_def Let_def)
    then have "x = e" and "snd (dr s) = s'" using that by simp_all
    then show ?thesis using Inl by (simp add: prod_eq_iff)
  next
    case (Inr r)
    then have "\<exists>u. draft_node dr t1 t2 s = Returns u"
      by (simp add: draft_node_def Let_def split: option.splits)
    then show ?thesis using that by auto
  qed
  have stops: "run_graph (Suc k) ags now Draft_node s = Failed e (snd (drafter ags s))"
    if "fst (drafter ags s) = Inl e"
    using that raises [of "drafter ags" now now] by (simp add: run_node_def)
  have spec: "draft_node (spec_drafter collaborator) t1 t2 s = Raises e s"
    if "collaborator (user_intent s) (current_draft s) (agent_notes s) = Inl e"
    using that raises [of "spec_drafter collaborator" t1 t2] by (simp add: spec_drafter_def)
  have kept: "engine_step (draft_node dr t1 t2) cp sid = (Step_failed e, cp)"
    if "cp sid = Some s" "fst (dr s) = Inl e"
    using that raises [of dr t1 t2] by (simp add: engine_step_def)
  have resumes: "engine_step (draft_node dr' u1 u2)
        (snd (engine_step (draft_node dr t1 t2) cp sid)) sid = (Step_done, cp(sid \<mapsto> s''))"
    if "cp sid = Some s" "fst (dr s) = Inl e" "draft_node dr' u1 u2 s = Returns s''"
    using that kept by (simp add: engine_step_def)
  have stream: "stream_protocol astream accepts clock cp intents sid
      = ([Error_event (Str e)], cp, intents)"
    if "cp sid = Some s" "status s \<noteq> ''completed''" "\<not> halted s"
       "status s \<noteq> ''awaiting_approval''" "fst (dr s) = Inl e"
       "astream cp sid = \<lparr> run_events = [],
                            run_raised = (case fst (engine_step (draft_node dr t1 t2) cp sid) of
                                            Step_failed x \<Rightarrow> Some x | _ \<Rightarrow> None),
                            run_checkpoints = snd (engine_step (draft_node dr t1 t2) cp sid) \<rparr>"
  proof -
    have run: "astream cp sid = \<lparr> run_events = [], run_raised = Some e, run_checkpoints = cp \<rparr>"
      using that kept by simp
    show ?thesis
      using that(1-4) run by (simp add: stream_protocol_def stream_workflow_def)
  qed
  show ?thesis
    using raises [of dr t1 t2] only stops spec kept resumes stream by blast
qed

theorem draft_node_failure_witness:
  "(let s = create_initial_state ''intent'' ''s1'' 5 0;
        e = AgentError ''timeout'';
        cp = [''s1'' \<mapsto> s];
        failing = draft_node writing_failing_drafter 1 2;
        run = (\<lambda>c i. \<lparr> run_events = [],
                         run_raised = (case fst (engine_step failing c i) of
                                         Step_failed x \<Rightarrow> Some x | _ \<Rightarrow> None),
                         run_checkpoints = snd (engine_step failing c i) \<rparr>)
    in fst (writing_failing_drafter s) = Inl e \<and>
       snd (writing_failing_drafter s) \<noteq> s \<and>
       failing s = Raises e (s\<lparr> status := ''half written'' \<rparr>) \<and>
       run_graph 9 (revising_agents\<lparr> drafter := writing_failing_drafter \<rparr>) 0 Draft_node s
         = Failed e (s\<lparr> status := ''half written'' \<rparr>) \<and>
       failing_collaborator (user_intent s) (current_draft s) (agent_notes s) = Inl e \<and>
       draft_node (spec_drafter failing_collaborator) 1 2 s = Raises e s \<and>
       engine_step failing cp ''s1'' = (Step_failed e, cp) \<and>
       fst (engine_step (draft_node (drafter revising_agents) 3 4)
              (snd (engine_step failing cp ''s1'')) ''s1'') = Step_done \<and>
       map_option iteration_count
         (snd (engine_step (draft_node (drafter revising_agents) 3 4)
                 (snd (engine_step failing cp ''s1'')) ''s1'') ''s1'') = Some 1 \<and>
       stream_protocol run True (\<lambda>k. k) cp Map.empty ''s1''
         = ([Error_event (Str e)], cp, Map.empty))"
  using draft_node_failure
    [where dr = writing_failing_drafter
       and s = "create_initial_state ''intent'' ''s1'' 5 0"
       and e = "AgentError ''timeout''" and ?t1.0 = 1 and ?t2.0 = 2
       and s' = "(create_initial_state ''intent'' ''s1'' 5 0)\<lparr> status := ''half written'' \<rparr>"
       and ags = "revising_agents\<lparr> drafter := writing_failing_drafter \<rparr>"
       and k = 8 and now = 0
       and collaborator = failing_collaborator
       and cp = "[''s1'' \<mapsto> create_initial_state ''intent'' ''s1'' 5 0]"
       and sid = "''s1''"
       and dr' = "drafter revising_agents" and ?u1.0 = 3 and ?u2.0 = 4
       and s'' = "add_draft_version
                    ((create_initial_state ''intent'' ''s1'' 5 0)
                       \<lparr> current_draft := Some ''draft'', active_agent := Some ''Drafter'',
                         status := ''drafting'', iteration_count := 1 \<rparr>)
                    ''draft'' ''Drafter'' None None None 3 4"
       and astream = "\<lambda>c i. \<lparr> run_events = [],
                         run_raised = (case fst (engine_step
                                           (draft_node writing_failing_drafter 1 2) c i) of
                                         Step_failed x \<Rightarrow> Some x | _ \<Rightarrow> None),
                         run_checkpoints = snd (engine_step
                                           (draft_node writing_failing_drafter 1 2) c i) \<rparr>"
       and accepts = True and clock = "\<lambda>k. k" and intents = Map.empty]
  by (simp add: Let_def writing_failing_drafter_def failing_collaborator_def
      revising_agents_def create_initial_state_def draft_node_def add_draft_version_def
      engine_step_def)

section \<open>create and the checkpoint\<close>

text \<open>
  Claim C4, as stated, fails: the write of the seed state is made inside a \<open>try\<close>
  whose handlers swallow every exception. When the store refuses the write, create
  still returns the session id; no checkpoint exists under it, and the intent stays in
  \<open>_session_intents\<close>.
\<close>

theorem create_protocol_counterexample:
  "resp_session_id (fst (create_protocol True False ''generated'' 0 1 Map.empty Map.empty
       \<lparr> intent = ''help'', req_session_id = Some ''s1'', req_metadata = None \<rparr>)) = ''s1'' \<and>
   fst (snd (create_protocol True False ''generated'' 0 1 Map.empty Map.empty
       \<lparr> intent = ''help'', req_session_id = Some ''s1'', req_metadata = None \<rparr>)) ''s1'' = None \<and>
   snd (snd (create_protocol True False ''generated'' 0 1 Map.empty Map.empty
       \<lparr> intent = ''help'', req_session_id = Some ''s1'', req_metadata = None \<rparr>)) ''s1''
     = Some ''help''"
  by (simp add: create_protocol_def request_session_id_def aupdate_state_def Let_def)

text \<open>
  Claim C4, amended. Create always returns the session id. If the workflow has
  \<open>aupdate_state\<close> and the store takes the write, the seed state is stored under that
  id before the return and the intent is removed from \<open>_session_intents\<close>; otherwise
  the store is as before and the intent stays in \<open>_session_intents\<close>. A later stream
  for an id without checkpoint seeds the state from that cache, and answers with an
  error event when the cache has no entry either.
\<close>

theorem create_protocol_best_effort:
  "resp_session_id (fst (create_protocol has_aupdate accepts generated now now' cp intents request))
     = request_session_id request generated \<and>
   (has_aupdate \<and> accepts \<longrightarrow>
      fst (snd (create_protocol has_aupdate accepts generated now now' cp intents request))
        = cp(request_session_id request generated \<mapsto>
             create_initial_state (intent request) (request_session_id request generated) 5 now) \<and>
      snd (snd (create_protocol has_aupdate accepts generated now now' cp intents request))
        = intents(request_session_id request generated := None)) \<and>
   (\<not> (has_aupdate \<and> accepts) \<longrightarrow>
      fst (snd (create_protocol has_aupdate accepts generated now now' cp intents request)) = cp \<and>
      snd (snd (create_protocol has_aupdate accepts generated now now' cp intents request))
        = intents(request_session_id request generated \<mapsto> intent request)) \<and>
   (cp sid = None \<and> intents sid = Some i \<longrightarrow>
      stream_protocol astream True clock cp intents sid
        = stream_workflow astream clock 1 (create_initial_state i sid 5 (clock 0))
            (cp(sid \<mapsto> create_initial_state i sid 5 (clock 0))) (intents(sid := None)) sid) \<and>
   (cp sid = None \<and> intents sid = None \<longrightarrow>
      stream_protocol astream acc clock cp intents sid
        = ([Error_event (Literal
             ''No initial state found. Please create protocol first using /api/protocols/create endpoint.'')],
           cp, intents))"
  by (simp add: create_protocol_def aupdate_state_def stream_protocol_def Let_def)

theorem create_protocol_best_effort_witness:
  "fst (snd (create_protocol True True ''generated'' 0 1 Map.empty Map.empty
       \<lparr> intent = ''help'', req_session_id = Some ''s1'', req_metadata = None \<rparr>)) ''s1''
     = Some (create_initial_state ''help'' ''s1'' 5 0) \<and>
   snd (snd (create_protocol True True ''generated'' 0 1 Map.empty Map.empty
       \<lparr> intent = ''help'', req_session_id = Some ''s1'', req_metadata = None \<rparr>)) ''s1'' = None \<and>
   \<not> (True \<and> False) \<and>
   fst (snd (create_protocol True False ''generated'' 0 1 Map.empty Map.empty
       \<lparr> intent = ''help'', req_session_id = None, req_metadata = None \<rparr>)) = Map.empty \<and>
   snd (snd (create_protocol True False ''generated'' 0 1 Map.empty Map.empty
       \<lparr> intent = ''help'', req_session_id = None, req_metadata = None \<rparr>)) ''generated''
     = Some ''help'' \<and>
   fst (stream_protocol idle_run True (\<lambda>k. k) Map.empty [''generated'' \<mapsto> ''help''] ''generated'')
     = [Complete (Some (create_initial_state ''help'' ''generated'' 5 0)) 1] \<and>
   fst (snd (stream_protocol idle_run True (\<lambda>k. k) Map.empty [''generated'' \<mapsto> ''help'']
       ''generated'')) ''generated''
     = Some (create_initial_state ''help'' ''generated'' 5 0) \<and>
   fst (stream_protocol idle_run True (\<lambda>k. k) Map.empty Map.empty ''generated'')
     = [Error_event (Literal
          ''No initial state found. Please create protocol first using /api/protocols/create endpoint.'')]"
  using create_protocol_best_effort
    [where has_aupdate = True and accepts = True and generated = "''generated''"
       and now = 0 and now' = 1 and cp = Map.empty and intents = Map.empty
       and request = "\<lparr> intent = ''help'', req_session_id = Some ''s1'', req_metadata = None \<rparr>"
       and sid = "''generated''" and i = "''help''" and astream = idle_run
       and clock = "\<lambda>k. k" and acc = True]
    create_protocol_best_effort
    [where has_aupdate = True and accepts = False and generated = "''generated''"
       and now = 0 and now' = 1 and cp = Map.empty
       and intents = "[''generated'' \<mapsto> ''help'']"
       and request = "\<lparr> intent = ''help'', req_session_id = None, req_metadata = None \<rparr>"
       and sid = "''generated''" and i = "''help''" and astream = idle_run
       and clock = "\<lambda>k. k" and acc = True]
  by (simp add: request_session_id_def create_protocol_def aupdate_state_def Let_def
      stream_protocol_def stream_workflow_def idle_run_def serialize_state_for_json_def
      create_initial_state_def)

section \<open>Replay of a finished or paused session\<close>

text \<open>
  Claim C7, as stated, fails in its last part: the replayed event carries
  \<open>datetime.now()\<close> of the replay, so two invocations at different times do not
  yield the same event.
\<close>

theorem stream_replay_counterexample:
  "fst (stream_protocol idle_run True (\<lambda>k. 1)
          [''s1'' \<mapsto> (create_initial_state ''intent'' ''s1'' 5 0)\<lparr> status := ''completed'' \<rparr>]
          Map.empty ''s1'')
     = [Complete (Some ((create_initial_state ''intent'' ''s1'' 5 0)\<lparr> status := ''completed'' \<rparr>)) 1] \<and>
   fst (stream_protocol idle_run True (\<lambda>k. 2)
          [''s1'' \<mapsto> (create_initial_state ''intent'' ''s1'' 5 0)\<lparr> status := ''completed'' \<rparr>]
          Map.empty ''s1'')
     = [Complete (Some ((create_initial_state ''intent'' ''s1'' 5 0)\<lparr> status := ''completed'' \<rparr>)) 2] \<and>
   fst (stream_protocol idle_run True (\<lambda>k. 1)
          [''s1'' \<mapsto> (create_initial_state ''intent'' ''s1'' 5 0)\<lparr> status := ''completed'' \<rparr>]
          Map.empty ''s1'')
     \<noteq> fst (stream_protocol idle_run True (\<lambda>k. 2)
          [''s1'' \<mapsto> (create_initial_state ''intent'' ''s1'' 5 0)\<lparr> status := ''completed'' \<rparr>]
          Map.empty ''s1'')"
  by (simp add: stream_protocol_def serialize_state_for_json_def)

text \<open>
  Claim C7, amended. For a stored state with status \<open>completed\<close> the stream is the
  single event \<open>complete\<close>, and for a stored state that is halted or has status
  \<open>awaiting_approval\<close> (and is not completed) the single event \<open>halted\<close>; the event
  carries the stored state and the time of the replay. The graph run is not started
  (the result does not depend on it), and the store and the intents are returned as
  they were. Repeated invocations therefore yield events of the same kind with the
  same state, which differ in their timestamp only.
\<close>

theorem stream_protocol_replay:
  "(cp sid = Some v \<and> status v = ''completed'' \<longrightarrow>
      stream_protocol astream accepts clock cp intents sid
        = ([Complete (Some v) (clock 0)], cp, intents)) \<and>
   (cp sid = Some v \<and> status v \<noteq> ''completed'' \<and> (halted v \<or> status v = ''awaiting_approval'') \<longrightarrow>
      stream_protocol astream accepts clock cp intents sid
        = ([Halted_event (Some v) ''Workflow paused for human review'' (clock 0)], cp, intents))"
  by (auto simp: stream_protocol_def serialize_state_for_json_def)

theorem stream_protocol_replay_witness:
  "fst (stream_protocol idle_run True (\<lambda>k. 7)
          [''s1'' \<mapsto> (create_initial_state ''intent'' ''s1'' 5 0)\<lparr> status := ''completed'' \<rparr>]
          Map.empty ''s1'')
     = [Complete (Some ((create_initial_state ''intent'' ''s1'' 5 0)\<lparr> status := ''completed'' \<rparr>)) 7] \<and>
   fst (stream_protocol idle_run True (\<lambda>k. 7)
          [''s1'' \<mapsto> (create_initial_state ''intent'' ''s1'' 5 0)\<lparr> halted := True \<rparr>]
          Map.empty ''s1'')
     = [Halted_event (Some ((create_initial_state ''intent'' ''s1'' 5 0)\<lparr> halted := True \<rparr>))
          ''Workflow paused for human review'' 7] \<and>
   fst (snd (stream_protocol idle_run True (\<lambda>k. 7)
          [''s1'' \<mapsto> (create_initial_state ''intent'' ''s1'' 5 0)\<lparr> halted := True \<rparr>]
          Map.empty ''s1''))
     = [''s1'' \<mapsto> (create_initial_state ''intent'' ''s1'' 5 0)\<lparr> halted := True \<rparr>]"
  using stream_protocol_replay
    [where cp = "[''s1'' \<mapsto> (create_initial_state ''intent'' ''s1'' 5 0)\<lparr> status := ''completed'' \<rparr>]"
       and sid = "''s1''"
       and v = "(create_initial_state ''intent'' ''s1'' 5 0)\<lparr> status := ''completed'' \<rparr>"
       and astream = idle_run and accepts = True and clock = "\<lambda>k. 7" and intents = Map.empty]
    stream_protocol_replay
    [where cp = "[''s1'' \<mapsto> (create_initial_state ''intent'' ''s1'' 5 0)\<lparr> halted := True \<rparr>]"
       and sid = "''s1''"
       and v = "(create_initial_state ''intent'' ''s1'' 5 0)\<lparr> halted := True \<rparr>"
       and astream = idle_run and accepts = True and clock = "\<lambda>k. 7" and intents = Map.empty]
  by (simp add: create_initial_state_def)

section \<open>approve\<close>

text \<open>
  Claim C6, as stated, fails for an empty \<open>approved_content\<close>: the empty string
  differs, after trimming, from the draft \<open>draft\<close>, but the guard
  \<open>if request.approved_content\<close> treats it as not given, so the draft stays,
  \<open>human_edits\<close> stays unset and the note has no marker.
\<close>

theorem approve_empty_content_counterexample:
  "py_strip '''' \<noteq> py_strip ''draft'' \<and>
   map_option current_draft
     (snd (approve_protocol resume_stored True True (\<lambda>k. k)
        [''s1'' \<mapsto> (create_initial_state ''intent'' ''s1'' 5 0)\<lparr> current_draft := Some ''draft'' \<rparr>]
        ''s1'' (Some '''')) ''s1'') = Some (Some ''draft'') \<and>
   map_option human_edits
     (snd (approve_protocol resume_stored True True (\<lambda>k. k)
        [''s1'' \<mapsto> (create_initial_state ''intent'' ''s1'' 5 0)\<lparr> current_draft := Some ''draft'' \<rparr>]
        ''s1'' (Some '''')) ''s1'') = Some None \<and>
   map_option (\<lambda>s. map note_text (agent_notes s))
     (snd (approve_protocol resume_stored True True (\<lambda>k. k)
        [''s1'' \<mapsto> (create_initial_state ''intent'' ''s1'' 5 0)\<lparr> current_draft := Some ''draft'' \<rparr>]
        ''s1'' (Some '''')) ''s1'') = Some [''Protocol approved and finalized'']"
  by (simp add: approve_protocol_def approve_body_def approve_update_def approve_edits_def
      approve_resume_def resume_stored_def aupdate_state_def except_500_def
      create_initial_state_def add_agent_note_def py_strip_def py_isspace_def Let_def)

text \<open>
  Claim C6, amended. For a session with a current draft: approve with no
  \<open>approved_content\<close>, with an empty one, or with one equal to the draft after
  trimming leaves \<open>human_edits\<close> and \<open>current_draft\<close> as they were and appends the
  note without the marker \<open>(with edits)\<close>; approve with a non-empty
  \<open>approved_content\<close> that differs from the draft after trimming sets
  \<open>current_draft\<close> and \<open>human_edits\<close> to it and appends the note with the marker.
  In both cases the state has \<open>human_approved = True\<close>, \<open>halted = False\<close> and
  \<open>status = approved\<close> when it is persisted, and the run is resumed from the store
  that holds it.
\<close>

theorem approve_protocol_edits:
  "(cp sid = Some v \<and> current_draft v = Some d \<and>
    (approved_content = None \<or> approved_content = Some [] \<or>
     (\<exists>a. approved_content = Some a \<and> py_strip a = py_strip d)) \<longrightarrow>
      (\<exists>u. approve_update clock v approved_content = Inr u \<and>
           human_edits u = human_edits v \<and> current_draft u = Some d \<and>
           agent_notes u = agent_notes v @
             [\<lparr> agent_name = ''Human'', note_text = ''Protocol approved and finalized'',
                target_agent = None, note_timestamp = clock 0, priority = ''info'' \<rparr>] \<and>
           \<not> py_in ''(with edits)'' (note_text (last (agent_notes u))) \<and>
           human_approved u \<and> \<not> halted u \<and> status u = ''approved'' \<and>
           approve_protocol ainvoke True accepts2 clock cp sid approved_content
             = except_500 (approve_resume ainvoke accepts2 clock (cp(sid \<mapsto> u)) sid))) \<and>
   (cp sid = Some v \<and> current_draft v = Some d \<and>
    approved_content = Some a \<and> a \<noteq> [] \<and> py_strip a \<noteq> py_strip d \<longrightarrow>
      (\<exists>u. approve_update clock v approved_content = Inr u \<and>
           human_edits u = Some a \<and> current_draft u = Some a \<and>
           agent_notes u = agent_notes v @
             [\<lparr> agent_name = ''Human'',
                note_text = ''Protocol approved and finalized (with edits)'',
                target_agent = None, note_timestamp = clock 0, priority = ''info'' \<rparr>] \<and>
           py_in ''(with edits)'' (note_text (last (agent_notes u))) \<and>
           human_approved u \<and> \<not> halted u \<and> status u = ''approved'' \<and>
           approve_protocol ainvoke True accepts2 clock cp sid approved_content
             = except_500 (approve_resume ainvoke accepts2 clock (cp(sid \<mapsto> u)) sid)))"
proof (intro conjI impI)
  assume h: "cp sid = Some v \<and> current_draft v = Some d \<and>
    (approved_content = None \<or> approved_content = Some [] \<or>
     (\<exists>a. approved_content = Some a \<and> py_strip a = py_strip d))"
  then have same: "approve_edits v approved_content = Inr (v, False)"
    by (auto simp: approve_edits_def)
  show "\<exists>u. approve_update clock v approved_content = Inr u \<and>
           human_edits u = human_edits v \<and> current_draft u = Some d \<and>
           agent_notes u = agent_notes v @
             [\<lparr> agent_name = ''Human'', note_text = ''Protocol approved and finalized'',
                target_agent = None, note_timestamp = clock 0, priority = ''info'' \<rparr>] \<and>
           \<not> py_in ''(with edits)'' (note_text (last (agent_notes u))) \<and>
           human_approved u \<and> \<not> halted u \<and> status u = ''approved'' \<and>
           approve_protocol ainvoke True accepts2 clock cp sid approved_content
             = except_500 (approve_resume ainvoke accepts2 clock (cp(sid \<mapsto> u)) sid)"
    using h same
    by (simp add: approve_update_def add_agent_note_def Let_def approve_protocol_def
        approve_body_def aupdate_state_def)
next
  assume h: "cp sid = Some v \<and> current_draft v = Some d \<and>
    approved_content = Some a \<and> a \<noteq> [] \<and> py_strip a \<noteq> py_strip d"
  then have edited: "approve_edits v approved_content
      = Inr (v\<lparr> current_draft := Some a, human_edits := Some a \<rparr>, True)"
    by (simp add: approve_edits_def)
  show "\<exists>u. approve_update clock v approved_content = Inr u \<and>
           human_edits u = Some a \<and> current_draft u = Some a \<and>
           agent_notes u = agent_notes v @
             [\<lparr> agent_name = ''Human'',
                note_text = ''Protocol approved and finalized (with edits)'',
                target_agent = None, note_timestamp = clock 0, priority = ''info'' \<rparr>] \<and>
           py_in ''(with edits)'' (note_text (last (agent_notes u))) \<and>
           human_approved u \<and> \<not> halted u \<and> status u = ''approved'' \<and>
           approve_protocol ainvoke True accepts2 clock cp sid approved_content
             = except_500 (approve_resume ainvoke accepts2 clock (cp(sid \<mapsto> u)) sid)"
    using h edited
    by (simp add: approve_update_def add_agent_note_def Let_def approve_protocol_def
        approve_body_def aupdate_state_def)
qed

theorem approve_protocol_edits_witness:
  "(let v = (create_initial_state ''intent'' ''s1'' 5 0)\<lparr> current_draft := Some ''draft'' \<rparr>;
        same = snd (approve_protocol resume_stored True True (\<lambda>k. k) [''s1'' \<mapsto> v] ''s1''
                      (Some '' draft '')) ''s1'';
        edited = snd (approve_protocol resume_stored True True (\<lambda>k. k) [''s1'' \<mapsto> v] ''s1''
                      (Some ''new draft'')) ''s1''
    in py_strip '' draft '' = py_strip ''draft'' \<and>
       py_strip ''new draft'' \<noteq> py_strip ''draft'' \<and>
       map_option current_draft same = Some (Some ''draft'') \<and>
       map_option human_edits same = Some None \<and>
       map_option human_approved same = Some True \<and>
       map_option halted same = Some False \<and>
       map_option status same = Some ''approved'' \<and>
       map_option current_draft edited = Some (Some ''new draft'') \<and>
       map_option human_edits edited = Some (Some ''new draft'') \<and>
       map_option human_approved edited = Some True \<and>
       map_option halted edited = Some False \<and>
       map_option status edited = Some ''approved'')"
  using approve_protocol_edits
    [where cp = "[''s1'' \<mapsto> (create_initial_state ''intent'' ''s1'' 5 0)\<lparr> current_draft := Some ''draft'' \<rparr>]"
       and sid = "''s1''"
       and v = "(create_initial_state ''intent'' ''s1'' 5 0)\<lparr> current_draft := Some ''draft'' \<rparr>"
       and d = "''draft''" and approved_content = "Some '' draft ''" and a = "'' draft ''"
       and clock = "\<lambda>k. k" and ainvoke = resume_stored and ?accepts2.0 = True]
    approve_protocol_edits
    [where cp = "[''s1'' \<mapsto> (create_initial_state ''intent'' ''s1'' 5 0)\<lparr> current_draft := Some ''draft'' \<rparr>]"
       and sid = "''s1''"
       and v = "(create_initial_state ''intent'' ''s1'' 5 0)\<lparr> current_draft := Some ''draft'' \<rparr>"
       and d = "''draft''" and approved_content = "Some ''new draft''" and a = "''new draft''"
       and clock = "\<lambda>k. k" and ainvoke = resume_stored and ?accepts2.0 = True]
  by (simp add: Let_def approve_protocol_def approve_body_def approve_update_def
      approve_edits_def approve_resume_def resume_stored_def aupdate_state_def except_500_def
      create_initial_state_def add_agent_note_def py_strip_def py_isspace_def)

text \<open>
  Claim C10. For a stored session without a draft (\<open>current_draft = None\<close>), approve
  with a non-empty \<open>approved_content\<close> fails: \<open>.strip()\<close> is called on \<open>None\<close>, and
  the exception leaves the endpoint as a 500. No write has been made, so the store is
  the store before the call, and neither the resumed run nor the store's answer plays
  a part.
\<close>

theorem approve_without_draft_fails:
  "cp sid = Some v \<and> current_draft v = None \<and> approved \<noteq> [] \<longrightarrow>
     approve_protocol ainvoke accepts1 accepts2 clock cp sid (Some approved)
       = (Inl (HTTPException 500
            (Str (AttributeError ''NoneType object has no attribute strip''))), cp)"
  by (simp add: approve_protocol_def approve_body_def approve_update_def approve_edits_def
      except_500_def)

theorem approve_without_draft_fails_witness:
  "[''s1'' \<mapsto> create_initial_state ''intent'' ''s1'' 5 0] ''s1''
     = Some (create_initial_state ''intent'' ''s1'' 5 0) \<and>
   current_draft (create_initial_state ''intent'' ''s1'' 5 0) = None \<and>
   ''edited'' \<noteq> [] \<and>
   approve_protocol resume_stored True True (\<lambda>k. k)
       [''s1'' \<mapsto> create_initial_state ''intent'' ''s1'' 5 0] ''s1'' (Some ''edited'')
     = (Inl (HTTPException 500
          (Str (AttributeError ''NoneType object has no attribute strip''))),
        [''s1'' \<mapsto> create_initial_state ''intent'' ''s1'' 5 0])"
  using approve_without_draft_fails
    [where cp = "[''s1'' \<mapsto> create_initial_state ''intent'' ''s1'' 5 0]"
       and sid = "''s1''" and v = "create_initial_state ''intent'' ''s1'' 5 0"
       and approved = "''edited''" and ainvoke = resume_stored
       and ?accepts1.0 = True and ?accepts2.0 = True and clock = "\<lambda>k. k"]
  by (simp add: create_initial_state_def)

section \<open>A session that does not exist\<close>

text \<open>
  Claim C8 asks for a 404 when approve or halt is called for a session id without
  checkpoint. The code raises \<open>HTTPException(404)\<close> inside the \<open>try\<close> whose handler
  catches every \<open>Exception\<close>, so the caller gets a 500 whose detail renders the 404.
  The store is left as it was.
\<close>

theorem missing_session_is_500:
  "approve_protocol ainvoke accepts1 accepts2 clock Map.empty sid approved_content
     = (Inl (HTTPException 500 (Str (HTTPException 404 (Literal ''Session not found'')))),
        Map.empty) \<and>
   halt_protocol accepts clock Map.empty sid
     = (Inl (HTTPException 500 (Str (HTTPException 404 (Literal ''Session not found'')))),
        Map.empty)"
  by (simp add: approve_protocol_def approve_body_def halt_protocol_def halt_body_def
      except_500_def)

end
